theory Spec2Isabelle
  imports Complex_Main "HOL-Library.Sublist"
begin

section \<open>JavaScript strings\<close>

text \<open>
  A JavaScript string is a sequence of code units. The model uses \<^typ>\<open>string\<close>: one
  \<^typ>\<open>char\<close> stands for one code unit in the range U+0000 .. U+00FF. The white space
  and line terminator code units of ECMAScript in that range are TAB, LF, VT, FF, CR,
  SP and NBSP; the others (U+1680, U+2000 .. U+200A, U+2028, U+2029, U+202F, U+205F,
  U+3000, U+FEFF) lie outside the range of the model.
\<close>

definition isWhiteSpace :: "char \<Rightarrow> bool" where
  "isWhiteSpace c \<longleftrightarrow>
     c = CHR 0x09 \<or> c = CHR 0x0A \<or> c = CHR 0x0B \<or> c = CHR 0x0C \<or> c = CHR 0x0D \<or>
     c = CHR 0x20 \<or> c = CHR 0xA0"

text \<open>\<^verbatim>\<open>String.prototype.trim\<close>: white space is removed at both ends.\<close>

definition trim :: "string \<Rightarrow> string" where
  "trim s = rev (dropWhile isWhiteSpace (rev (dropWhile isWhiteSpace s)))"

text \<open>\<^verbatim>\<open>String.prototype.endsWith\<close> and \<^verbatim>\<open>String.prototype.includes\<close>.\<close>

definition endsWith :: "string \<Rightarrow> string \<Rightarrow> bool" where
  "endsWith s t \<longleftrightarrow> length t \<le> length s \<and> drop (length s - length t) s = t"

fun includes_str :: "string \<Rightarrow> string \<Rightarrow> bool" where
  "includes_str [] t = (t = [])"
| "includes_str (c # cs) t = (take (length t) (c # cs) = t \<or> includes_str cs t)"

text \<open>\<^verbatim>\<open>Array.prototype.join\<close> on an array of strings.\<close>

fun join :: "string \<Rightarrow> string list \<Rightarrow> string" where
  "join sep [] = []"
| "join sep [x] = x"
| "join sep (x # y # ys) = x @ sep @ join sep (y # ys)"

text \<open>
  \<^verbatim>\<open>a || d\<close> on an optional string: \<^verbatim>\<open>undefined\<close>, \<^verbatim>\<open>null\<close> and the empty string
  are falsy and give the default.
\<close>

fun or_default :: "string option \<Rightarrow> string \<Rightarrow> string" where
  "or_default None d = d"
| "or_default (Some s) d = (if s = [] then d else s)"

section \<open>JSON values\<close>

text \<open>
  A value that \<^verbatim>\<open>JSON.parse\<close> gives and \<^verbatim>\<open>res.json\<close> sends. Numbers are the integers
  of magnitude below \<open>10\<^sup>2\<^sup>1\<close>, which JavaScript prints in plain decimal; the members
  of an object are kept in the order of the text.
\<close>

datatype json =
    JNull
  | JBool bool
  | JNumber int
  | JString string
  | JArray "json list"
  | JObject "(string \<times> json) list"

datatype exn = TypeError

text \<open>
  The property read \<^verbatim>\<open>v.k\<close>, for the keys the application reads (\<^verbatim>\<open>name\<close>,
  \<^verbatim>\<open>html_url\<close>, \<^verbatim>\<open>description\<close>): on \<^verbatim>\<open>null\<close> it throws; an object gives its member
  (the last one of that key) or \<^verbatim>\<open>undefined\<close>, here \<open>None\<close>; a string, a number, a
  boolean and an array have no such property.
\<close>

fun get_prop :: "json \<Rightarrow> string \<Rightarrow> exn + json option" where
  "get_prop JNull k = Inl TypeError"
| "get_prop (JObject kvs) k = Inr (map_of (rev kvs) k)"
| "get_prop (JBool b) k = Inr None"
| "get_prop (JNumber n) k = Inr None"
| "get_prop (JString v) k = Inr None"
| "get_prop (JArray vs) k = Inr None"

text \<open>The decimal digits of a number, as \<^verbatim>\<open>Number.prototype.toString\<close> prints them.\<close>

fun nat_to_string :: "nat \<Rightarrow> string" where
  "nat_to_string n =
     (if n < 10 then [''0123456789'' ! n]
      else nat_to_string (n div 10) @ [''0123456789'' ! (n mod 10)])"

definition int_to_string :: "int \<Rightarrow> string" where
  "int_to_string i = (if i < 0 then ''-'' @ nat_to_string (nat (- i)) else nat_to_string (nat i))"

text \<open>
  The string of a value inside a template literal. An array prints its elements
  separated by commas, \<^verbatim>\<open>null\<close> elements as nothing; an object prints as
  \<^verbatim>\<open>[object Object]\<close>; \<^verbatim>\<open>undefined\<close> prints as \<^verbatim>\<open>undefined\<close>.
\<close>

fun to_string :: "json \<Rightarrow> string" and elements_to_string :: "json list \<Rightarrow> string" where
  "to_string JNull = ''null''"
| "to_string (JBool b) = (if b then ''true'' else ''false'')"
| "to_string (JNumber n) = int_to_string n"
| "to_string (JString v) = v"
| "to_string (JArray vs) = elements_to_string vs"
| "to_string (JObject kvs) = ''[object Object]''"
| "elements_to_string [] = []"
| "elements_to_string [v] = (if v = JNull then [] else to_string v)"
| "elements_to_string (v # w # ws) =
     (if v = JNull then [] else to_string v) @ '','' @ elements_to_string (w # ws)"

fun template_str :: "json option \<Rightarrow> string" where
  "template_str None = ''undefined''"
| "template_str (Some v) = to_string v"

text \<open>The falsy values: \<^verbatim>\<open>undefined\<close>, \<^verbatim>\<open>null\<close>, \<^verbatim>\<open>false\<close>, zero and the empty string.\<close>

fun falsy :: "json option \<Rightarrow> bool" where
  "falsy None = True"
| "falsy (Some JNull) = True"
| "falsy (Some (JBool b)) = (\<not> b)"
| "falsy (Some (JNumber n)) = (n = 0)"
| "falsy (Some (JString v)) = (v = [])"
| "falsy (Some (JArray vs)) = False"
| "falsy (Some (JObject kvs)) = False"

section \<open>The chat service (geminiService)\<close>

datatype role = User | Model

record MapResult =
  uri :: string
  title :: string

record ChatMessage =
  role :: role
  msg_text :: string
  mapResults :: "MapResult list option"

record Location =
  latitude :: real
  longitude :: real

text \<open>The parts of a \<^verbatim>\<open>GenerateContentResponse\<close> that the code reads.\<close>

record MapsChunk =
  maps_uri :: string
  maps_title :: "string option"

record GroundingChunk =
  maps :: "MapsChunk option"

record GroundingMetadata =
  groundingChunks :: "GroundingChunk list option"

record Candidate =
  groundingMetadata :: "GroundingMetadata option"

record FunctionCall =
  call_name :: "string option"

record GenerateContentResponse =
  resp_text :: "string option"
  candidates :: "Candidate list option"
  functionCalls :: "FunctionCall list option"

text \<open>
  The outcome of \<^verbatim>\<open>ai.models.generateContent\<close>: the promise is rejected (a transport
  or API error) or resolves with a response.
\<close>

datatype api_outcome = ApiError | ApiOk GenerateContentResponse

type_synonym genai = "string \<Rightarrow> Location option \<Rightarrow> api_outcome"

text \<open>\<^verbatim>\<open>{} as any\<close>: a response none of whose properties is defined.\<close>

definition empty_response :: GenerateContentResponse where
  "empty_response = \<lparr>resp_text = None, candidates = None, functionCalls = None\<rparr>"

definition error_text :: string where
  "error_text =
     ''I encountered an error while trying to find that information. Please try again.''"

text \<open>The \<^verbatim>\<open>forEach\<close> over the grounding chunks, pushing one result per maps chunk.\<close>

fun push_maps :: "GroundingChunk list \<Rightarrow> MapResult list" where
  "push_maps [] = []"
| "push_maps (chunk # rest) =
     (case maps chunk of
        None \<Rightarrow> push_maps rest
      | Some m \<Rightarrow>
          \<lparr>uri = maps_uri m, title = or_default (maps_title m) ''View on Google Maps''\<rparr>
            # push_maps rest)"

text \<open>\<^verbatim>\<open>response.candidates?.[0]?.groundingMetadata?.groundingChunks\<close>\<close>

definition first_chunks :: "GenerateContentResponse \<Rightarrow> GroundingChunk list option" where
  "first_chunks response =
     (case candidates response of
        None \<Rightarrow> None
      | Some [] \<Rightarrow> None
      | Some (c # _) \<Rightarrow>
          (case groundingMetadata c of
             None \<Rightarrow> None
           | Some g \<Rightarrow> groundingChunks g))"

text \<open>
  \<^verbatim>\<open>chatWithMaps\<close>: the whole body stands in a \<^verbatim>\<open>try\<close> whose \<^verbatim>\<open>catch\<close> returns the
  fixed error message with an empty response, so the function never rejects.
\<close>

definition chatWithMaps ::
  "genai \<Rightarrow> string \<Rightarrow> Location option \<Rightarrow> GenerateContentResponse \<times> ChatMessage" where
  "chatWithMaps ai message loc =
     (case ai message loc of
        ApiError \<Rightarrow>
          (empty_response, \<lparr>role = Model, msg_text = error_text, mapResults = None\<rparr>)
      | ApiOk response \<Rightarrow>
          (let text = or_default (resp_text response) [];
               mapResults = (case first_chunks response of
                               None \<Rightarrow> []
                             | Some chunks \<Rightarrow> push_maps chunks)
           in (response,
               \<lparr>role = Model, msg_text = text,
                mapResults = (if length mapResults > 0 then Some mapResults else None)\<rparr>)))"

section \<open>The application state (App)\<close>

record GithubUser =
  login :: string
  name :: "string option"
  avatar_url :: string

text \<open>
  What the application does to the outside: a call of the generative API, a \<^verbatim>\<open>fetch\<close>
  of a path of its own server, and \<^verbatim>\<open>window.open\<close>.
\<close>

datatype effect =
    GenerateContent string "Location option"
  | Fetch string
  | WindowOpen string

text \<open>
  The state hooks of \<^verbatim>\<open>App\<close>, and \<open>effects\<close>, the record of the outside calls made so
  far (newest last). \<^verbatim>\<open>githubRepos\<close> holds whatever JSON the repositories endpoint
  answered: the code stores it unchecked.
\<close>

record AppState =
  messages :: "ChatMessage list"
  input :: string
  isLoading :: bool
  location :: "Location option"
  mapCenter :: "real \<times> real"
  zoom :: int
  githubUser :: "GithubUser option"
  githubRepos :: json
  effects :: "effect list"

definition greeting :: string where
  "greeting = ''Hi! I'm GeoGuide. I can help you find restaurants, landmarks, or anything else nearby using real-time Google Maps data. I can also connect to your GitHub now! Where would you like to explore today?''"

definition initial_state :: AppState where
  "initial_state =
     \<lparr>messages = [\<lparr>role = Model, msg_text = greeting, mapResults = None\<rparr>],
      input = [],
      isLoading = False,
      location = None,
      mapCenter = (51.505, -0.09),
      zoom = 13,
      githubUser = None,
      githubRepos = JArray [],
      effects = []\<rparr>"

subsection \<open>Sending a chat message\<close>

definition link_prompt :: string where
  "link_prompt = ''You haven't connected your GitHub account yet. Please click the 'Connect GitHub' button below to see your repositories.''"

definition repos_header :: string where
  "repos_header = ''Here are your most recent GitHub repositories:''"

text \<open>
  The template of one repository. Reading a property of a \<^verbatim>\<open>null\<close> element throws;
  every other element prints, a missing property as \<^verbatim>\<open>undefined\<close>.
\<close>

definition repo_line :: "json \<Rightarrow> exn + string" where
  "repo_line r =
     (case get_prop r ''name'' of
        Inl e \<Rightarrow> Inl e
      | Inr n \<Rightarrow>
          (case get_prop r ''html_url'' of
             Inl e \<Rightarrow> Inl e
           | Inr u \<Rightarrow>
               (case get_prop r ''description'' of
                  Inl e \<Rightarrow> Inl e
                | Inr d \<Rightarrow>
                    Inr (''- ['' @ template_str n @ '']('' @ template_str u @ ''): ''
                         @ (if falsy d then ''No description'' else template_str d)))))"

text \<open>\<^verbatim>\<open>Array.prototype.map\<close> with this template: the first throw ends it.\<close>

fun map_repo_line :: "json list \<Rightarrow> exn + string list" where
  "map_repo_line [] = Inr []"
| "map_repo_line (r # rs) =
     (case repo_line r of
        Inl e \<Rightarrow> Inl e
      | Inr l \<Rightarrow> (case map_repo_line rs of Inl e \<Rightarrow> Inl e | Inr ls \<Rightarrow> Inr (l # ls)))"

text \<open>
  \<^verbatim>\<open>githubRepos.map(...).join('\n')\<close>: a value that is not an array has no callable
  \<^verbatim>\<open>map\<close>, and the call throws.
\<close>

definition repoList :: "json \<Rightarrow> exn + string" where
  "repoList repos =
     (case repos of
        JArray rs \<Rightarrow>
          (case map_repo_line rs of Inl e \<Rightarrow> Inl e | Inr ls \<Rightarrow> Inr (join ''\<newline>'' ls))
      | _ \<Rightarrow> Inl TypeError)"

text \<open>
  The loop over \<^verbatim>\<open>response.functionCalls\<close>: the first call named
  \<^verbatim>\<open>list_github_repositories\<close> decides the assistant turn and ends the handler, or
  throws while the list is formatted; the result is \<open>Inr None\<close> when the loop runs to
  its end.
\<close>

fun function_calls_loop ::
  "GithubUser option \<Rightarrow> json \<Rightarrow> FunctionCall list \<Rightarrow> exn + ChatMessage option" where
  "function_calls_loop user repos [] = Inr None"
| "function_calls_loop user repos (call # rest) =
     (if call_name call = Some ''list_github_repositories'' then
        (case user of
           None \<Rightarrow> Inr (Some \<lparr>role = Model, msg_text = link_prompt, mapResults = None\<rparr>)
         | Some _ \<Rightarrow>
             (case repoList repos of
                Inl e \<Rightarrow> Inl e
              | Inr l \<Rightarrow>
                  Inr (Some \<lparr>role = Model,
                             msg_text = repos_header @ ''\<newline>\<newline>'' @ l,
                             mapResults = None\<rparr>)))
      else function_calls_loop user repos rest)"

text \<open>
  \<^verbatim>\<open>handleSend\<close>. The guard returns at once; otherwise the user turn is appended, the
  input is cleared and the busy flag is set, \<^verbatim>\<open>chatWithMaps\<close> is awaited (one call of the
  generative API, recorded in \<open>effects\<close>; it catches its own errors), and the \<^verbatim>\<open>try\<close>
  block goes on with the function calls. When it throws, the \<^verbatim>\<open>catch\<close> block logs and
  appends nothing. The \<^verbatim>\<open>finally\<close> block clears the busy flag on every path.
\<close>

definition handleSend :: "genai \<Rightarrow> AppState \<Rightarrow> AppState" where
  "handleSend ai s =
     (if trim (input s) = [] \<or> isLoading s then s
      else
        let userMessage = \<lparr>role = User, msg_text = input s, mapResults = None\<rparr>;
            s1 = s\<lparr>messages := messages s @ [userMessage], input := [], isLoading := True\<rparr>;
            (response, chatMessage) = chatWithMaps ai (input s) (location s);
            s2 = s1\<lparr>effects := effects s1 @ [GenerateContent (input s) (location s)]\<rparr>;
            tried = (case functionCalls response of
                       None \<Rightarrow> Inr None
                     | Some calls \<Rightarrow> function_calls_loop (githubUser s) (githubRepos s) calls)
        in (case tried of
              Inl e \<Rightarrow> s2\<lparr>isLoading := False\<rparr>
            | Inr (Some reply) \<Rightarrow>
                (s2\<lparr>messages := messages s2 @ [reply], isLoading := False\<rparr>)\<lparr>isLoading := False\<rparr>
            | Inr None \<Rightarrow>
                (s2\<lparr>messages := messages s2 @ [chatMessage]\<rparr>)\<lparr>isLoading := False\<rparr>))"

text \<open>\<^verbatim>\<open>handleKeyPress\<close>: Enter without Shift sends.\<close>

definition handleKeyPress :: "genai \<Rightarrow> string \<Rightarrow> bool \<Rightarrow> AppState \<Rightarrow> AppState" where
  "handleKeyPress ai key shiftKey s =
     (if key = ''Enter'' \<and> \<not> shiftKey then handleSend ai s else s)"

subsection \<open>The linked account\<close>

text \<open>
  The outcome of a \<^verbatim>\<open>fetch\<close> followed by \<^verbatim>\<open>res.json()\<close>: the fetch is rejected, or
  it resolves with \<^verbatim>\<open>res.ok\<close> and a body (\<open>None\<close> when \<^verbatim>\<open>res.json()\<close> is rejected).
\<close>

datatype 'a fetch_outcome = FetchRejected | FetchResponse bool "'a option"

record Env =
  generateContent :: genai
  api_github_user :: "GithubUser fetch_outcome"
  api_github_repos :: "json fetch_outcome"
  api_auth_github_url :: "string fetch_outcome"

definition fetchGithubRepos :: "Env \<Rightarrow> AppState \<Rightarrow> AppState" where
  "fetchGithubRepos env s =
     (let s1 = s\<lparr>effects := effects s @ [Fetch ''/api/github/repos'']\<rparr>
      in case api_github_repos env of
           FetchResponse True (Some data) \<Rightarrow> s1\<lparr>githubRepos := data\<rparr>
         | _ \<Rightarrow> s1)"

definition fetchGithubUser :: "Env \<Rightarrow> AppState \<Rightarrow> AppState" where
  "fetchGithubUser env s =
     (let s1 = s\<lparr>effects := effects s @ [Fetch ''/api/github/user'']\<rparr>
      in case api_github_user env of
           FetchResponse True (Some data) \<Rightarrow> fetchGithubRepos env (s1\<lparr>githubUser := Some data\<rparr>)
         | _ \<Rightarrow> s1)"

definition handleConnectGithub :: "Env \<Rightarrow> AppState \<Rightarrow> AppState" where
  "handleConnectGithub env s =
     (let s1 = s\<lparr>effects := effects s @ [Fetch ''/api/auth/github/url'']\<rparr>
      in case api_auth_github_url env of
           FetchResponse _ (Some url) \<Rightarrow> s1\<lparr>effects := effects s1 @ [WindowOpen url]\<rparr>
         | _ \<Rightarrow> s1)"

text \<open>The cross-window message: \<^verbatim>\<open>event.origin\<close>, and \<^verbatim>\<open>event.data\<close> with its two fields.\<close>

record MessageData =
  msg_type :: "string option"
  provider :: "string option"

record MessageEvent =
  origin :: string
  data :: "MessageData option"

definition handleMessage :: "Env \<Rightarrow> MessageEvent \<Rightarrow> AppState \<Rightarrow> AppState" where
  "handleMessage env event s =
     (if \<not> endsWith (origin event) ''.run.app'' \<and> \<not> includes_str (origin event) ''localhost''
      then s
      else if (case data event of None \<Rightarrow> None | Some d \<Rightarrow> msg_type d) = Some ''OAUTH_AUTH_SUCCESS''
              \<and> (case data event of None \<Rightarrow> None | Some d \<Rightarrow> provider d) = Some ''github''
      then fetchGithubUser env s
      else s)"

subsection \<open>The map\<close>

text \<open>The callback given to \<^verbatim>\<open>InteractiveMap\<close>, and the two zoom buttons.\<close>

definition onLocationSelect :: "real \<Rightarrow> real \<Rightarrow> AppState \<Rightarrow> AppState" where
  "onLocationSelect lat lng s = (s\<lparr>mapCenter := (lat, lng)\<rparr>)\<lparr>zoom := 15\<rparr>"

text \<open>\<^verbatim>\<open>MapEvents\<close>: a click on the map calls the callback when there is one.\<close>

definition MapEvents_click ::
  "(real \<Rightarrow> real \<Rightarrow> 's \<Rightarrow> 's) option \<Rightarrow> real \<Rightarrow> real \<Rightarrow> 's \<Rightarrow> 's" where
  "MapEvents_click cb lat lng s = (case cb of None \<Rightarrow> s | Some f \<Rightarrow> f lat lng s)"

definition zoomIn :: "AppState \<Rightarrow> AppState" where
  "zoomIn s = s\<lparr>zoom := min (zoom s + 1) 18\<rparr>"

definition zoomOut :: "AppState \<Rightarrow> AppState" where
  "zoomOut s = s\<lparr>zoom := max (zoom s - 1) 3\<rparr>"

definition recenter :: "AppState \<Rightarrow> AppState" where
  "recenter s =
     (case location s of
        None \<Rightarrow> s
      | Some l \<Rightarrow> s\<lparr>mapCenter := (latitude l, longitude l)\<rparr>)"

definition geolocationSuccess :: "real \<Rightarrow> real \<Rightarrow> AppState \<Rightarrow> AppState" where
  "geolocationSuccess lat lng s =
     (s\<lparr>location := Some \<lparr>latitude = lat, longitude = lng\<rparr>\<rparr>)\<lparr>mapCenter := (lat, lng)\<rparr>"

subsection \<open>Every operation of the application\<close>

text \<open>
  The events the component reacts to: the two effects that run on mount, a window
  message, and every control of the page. The Clear Chat button has no handler.
\<close>

datatype event =
    MountFetchUser
  | GeolocationSuccess real real
  | GeolocationError
  | WindowMessage MessageEvent
  | InputChange string
  | ClickSend
  | KeyDown string bool
  | ClickConnectGithub
  | ClickClearChat
  | MapClick real real
  | ClickRecenter
  | ClickZoomIn
  | ClickZoomOut

fun step :: "Env \<Rightarrow> event \<Rightarrow> AppState \<Rightarrow> AppState" where
  "step env MountFetchUser s = fetchGithubUser env s"
| "step env (GeolocationSuccess lat lng) s = geolocationSuccess lat lng s"
| "step env GeolocationError s = s"
| "step env (WindowMessage event) s = handleMessage env event s"
| "step env (InputChange v) s = s\<lparr>input := v\<rparr>"
| "step env ClickSend s = handleSend (generateContent env) s"
| "step env (KeyDown key shiftKey) s = handleKeyPress (generateContent env) key shiftKey s"
| "step env ClickConnectGithub s = handleConnectGithub env s"
| "step env ClickClearChat s = s"
| "step env (MapClick lat lng) s = MapEvents_click (Some onLocationSelect) lat lng s"
| "step env ClickRecenter s = recenter s"
| "step env ClickZoomIn s = zoomIn s"
| "step env ClickZoomOut s = zoomOut s"

text \<open>A run: each event comes with the answers of the outside at that moment.\<close>

fun run :: "(Env \<times> event) list \<Rightarrow> AppState \<Rightarrow> AppState" where
  "run [] s = s"
| "run ((env, e) # rest) s = run rest (step env e s)"

section \<open>The server\<close>

text \<open>
  A value of \<^verbatim>\<open>req.query\<close>: a string, an array or a nested object. Only the empty
  string is falsy.
\<close>

datatype qval = QString string | QArray "qval list" | QObject "(string \<times> qval) list"

fun truthy :: "qval \<Rightarrow> bool" where
  "truthy (QString v) = (v \<noteq> [])"
| "truthy (QArray vs) = True"
| "truthy (QObject kvs) = True"

text \<open>The cookie session holds the token; \<^verbatim>\<open>req.session\<close> itself may be absent.\<close>

record Session =
  githubToken :: "string option"

record Request =
  query :: "string \<rightharpoonup> qval"
  session :: "Session option"

record ProcessEnv =
  APP_URL :: "string option"
  GITHUB_CLIENT_ID :: "string option"
  GITHUB_CLIENT_SECRET :: "string option"

text \<open>
  The requests the server sends upstream: the token exchange (client id, client secret
  and code in the body) and an authenticated GET of a URL with its Authorization header.
\<close>

datatype upstream =
    PostAccessToken "string option" "string option" qval
  | GetGithub string string

text \<open>
  The outcome of an axios call: no response at all, or a response with its status and
  data. With the default \<^verbatim>\<open>validateStatus\<close>, axios rejects the promise unless the
  status is 2xx.
\<close>

datatype 'a axios_outcome = AxiosNetworkError | AxiosResponse nat 'a

definition validateStatus :: "nat \<Rightarrow> bool" where
  "validateStatus st \<longleftrightarrow> 200 \<le> st \<and> st < 300"

fun axios_resolved :: "'a axios_outcome \<Rightarrow> 'a option" where
  "axios_resolved AxiosNetworkError = None"
| "axios_resolved (AxiosResponse st d) = (if validateStatus st then Some d else None)"

record TokenData =
  access_token :: "string option"

text \<open>What a handler answers, and what it leaves behind.\<close>

datatype body = SendText string | SendJson json

record Response =
  status :: nat
  body :: body

record Handled =
  response :: Response
  session_after :: "Session option"
  upstream_calls :: "upstream list"

text \<open>A template literal prints an undefined value as \<^verbatim>\<open>undefined\<close>.\<close>

fun str_of :: "string option \<Rightarrow> string" where
  "str_of None = ''undefined''"
| "str_of (Some v) = v"

subsection \<open>GET /api/auth/github/url\<close>

text \<open>
  The serialisation of \<^verbatim>\<open>URLSearchParams\<close> and the random string of
  \<^verbatim>\<open>Math.random().toString(36).substring(7)\<close> are parameters.
\<close>

definition auth_github_url ::
  "ProcessEnv \<Rightarrow> ((string \<times> string) list \<Rightarrow> string) \<Rightarrow> string \<Rightarrow> Request \<Rightarrow> Handled" where
  "auth_github_url penv toString rnd req =
     (let redirectUri = str_of (APP_URL penv) @ ''/api/auth/github/callback'';
          params = [(''client_id'', str_of (GITHUB_CLIENT_ID penv)),
                    (''redirect_uri'', redirectUri),
                    (''scope'', ''read:user repo''),
                    (''state'', rnd)]
      in \<lparr>response =
            \<lparr>status = 200,
             body = SendJson (JObject
               [(''url'', JString (''https://github.com/login/oauth/authorize?''
                                    @ toString params))])\<rparr>,
          session_after = session req,
          upstream_calls = []\<rparr>)"

subsection \<open>GET /api/auth/github/callback\<close>

definition success_page :: string where
  "success_page = concat
     [''\<newline>'',
      ''        <html>\<newline>'',
      ''          <body>\<newline>'',
      ''            <script>\<newline>'',
      ''              if (window.opener) {\<newline>'',
      ''                window.opener.postMessage({ type: 'OAUTH_AUTH_SUCCESS', provider: 'github' }, '*');\<newline>'',
      ''                window.close();\<newline>'',
      ''              } else {\<newline>'',
      ''                window.location.href = '/';\<newline>'',
      ''              }\<newline>'',
      ''            </script>\<newline>'',
      ''            <p>GitHub connected successfully. This window should close automatically.</p>\<newline>'',
      ''          </body>\<newline>'',
      ''        </html>\<newline>'',
      ''      '']"

text \<open>
  The handler reads \<^verbatim>\<open>code\<close> from the query and nothing else. A falsy code is
  answered with 400 before anything is sent. Otherwise the exchange is posted; when
  axios rejects, the \<^verbatim>\<open>catch\<close> block answers 500; when it resolves, the
  \<^verbatim>\<open>access_token\<close> of the data (defined or not) is stored in the session, and the page
  that notifies the opener is sent.
\<close>

definition auth_github_callback ::
  "ProcessEnv \<Rightarrow> (upstream \<Rightarrow> TokenData axios_outcome) \<Rightarrow> Request \<Rightarrow> Handled" where
  "auth_github_callback penv axios_post req =
     (let no_code = \<lparr>response = \<lparr>status = 400, body = SendText ''No code provided''\<rparr>,
                     session_after = session req,
                     upstream_calls = []\<rparr>
      in case query req ''code'' of
           None \<Rightarrow> no_code
         | Some code \<Rightarrow>
             if \<not> truthy code then no_code
             else
               let call = PostAccessToken (GITHUB_CLIENT_ID penv) (GITHUB_CLIENT_SECRET penv) code
               in case axios_resolved (axios_post call) of
                    None \<Rightarrow>
                      \<lparr>response = \<lparr>status = 500, body = SendText ''Authentication failed''\<rparr>,
                       session_after = session req,
                       upstream_calls = [call]\<rparr>
                  | Some d \<Rightarrow>
                      \<lparr>response = \<lparr>status = 200, body = SendText success_page\<rparr>,
                       session_after =
                         (case session req of
                            None \<Rightarrow> None
                          | Some ss \<Rightarrow> Some (ss\<lparr>githubToken := access_token d\<rparr>)),
                       upstream_calls = [call]\<rparr>)"

subsection \<open>GET /api/github/user and GET /api/github/repos\<close>

text \<open>\<^verbatim>\<open>req.session?.githubToken\<close>, and its truthiness.\<close>

definition session_token :: "Request \<Rightarrow> string option" where
  "session_token req = (case session req of None \<Rightarrow> None | Some ss \<Rightarrow> githubToken ss)"

definition github_user :: "(upstream \<Rightarrow> json axios_outcome) \<Rightarrow> Request \<Rightarrow> Handled" where
  "github_user axios_get req =
     (case session_token req of
        None \<Rightarrow>
          \<lparr>response = \<lparr>status = 401,
                        body = SendJson (JObject [(''error'', JString ''Not authenticated'')])\<rparr>,
           session_after = session req, upstream_calls = []\<rparr>
      | Some token \<Rightarrow>
          if token = [] then
            \<lparr>response = \<lparr>status = 401,
                          body = SendJson (JObject [(''error'', JString ''Not authenticated'')])\<rparr>,
             session_after = session req, upstream_calls = []\<rparr>
          else
            let call = GetGithub ''https://api.github.com/user'' (''token '' @ token)
            in case axios_resolved (axios_get call) of
                 None \<Rightarrow>
                   \<lparr>response =
                      \<lparr>status = 500,
                       body = SendJson (JObject [(''error'', JString ''Failed to fetch GitHub user'')])\<rparr>,
                    session_after = session req, upstream_calls = [call]\<rparr>
               | Some d \<Rightarrow>
                   \<lparr>response = \<lparr>status = 200, body = SendJson d\<rparr>,
                    session_after = session req, upstream_calls = [call]\<rparr>)"

definition github_repos :: "(upstream \<Rightarrow> json axios_outcome) \<Rightarrow> Request \<Rightarrow> Handled" where
  "github_repos axios_get req =
     (case session_token req of
        None \<Rightarrow>
          \<lparr>response = \<lparr>status = 401,
                        body = SendJson (JObject [(''error'', JString ''Not authenticated'')])\<rparr>,
           session_after = session req, upstream_calls = []\<rparr>
      | Some token \<Rightarrow>
          if token = [] then
            \<lparr>response = \<lparr>status = 401,
                          body = SendJson (JObject [(''error'', JString ''Not authenticated'')])\<rparr>,
             session_after = session req, upstream_calls = []\<rparr>
          else
            let call = GetGithub ''https://api.github.com/user/repos?sort=updated&per_page=5''
                         (''token '' @ token)
            in case axios_resolved (axios_get call) of
                 None \<Rightarrow>
                   \<lparr>response =
                      \<lparr>status = 500,
                       body = SendJson (JObject [(''error'', JString ''Failed to fetch repos'')])\<rparr>,
                    session_after = session req, upstream_calls = [call]\<rparr>
               | Some d \<Rightarrow>
                   \<lparr>response = \<lparr>status = 200, body = SendJson d\<rparr>,
                    session_after = session req, upstream_calls = [call]\<rparr>)"

section \<open>Sample inputs\<close>

text \<open>An outside where every call fails.\<close>

definition offline :: Env where
  "offline =
     \<lparr>generateContent = (\<lambda>message loc. ApiError),
      api_github_user = FetchRejected,
      api_github_repos = FetchRejected,
      api_auth_github_url = FetchRejected\<rparr>"

definition sample_penv :: ProcessEnv where
  "sample_penv =
     \<lparr>APP_URL = Some ''https://geoguide.run.app'',
      GITHUB_CLIENT_ID = Some ''Iv1.0123456789abcdef'',
      GITHUB_CLIENT_SECRET = Some ''s3cr3t''\<rparr>"

text \<open>
  An outside where GitHub is linked, and where the generative API answers with the
  \<^verbatim>\<open>list_github_repositories\<close> call.
\<close>

definition octocat :: GithubUser where
  "octocat =
     \<lparr>login = ''octocat'', name = Some ''The Octocat'',
      avatar_url = ''https://avatars.githubusercontent.com/u/583231''\<rparr>"

definition hello_world :: json where
  "hello_world =
     JObject [(''id'', JNumber 1296269), (''name'', JString ''Hello-World''),
              (''html_url'', JString ''https://github.com/octocat/Hello-World''),
              (''description'', JString ''My first repository on GitHub!'')]"

definition spoon_knife :: json where
  "spoon_knife =
     JObject [(''id'', JNumber 1300192), (''name'', JString ''Spoon-Knife''),
              (''html_url'', JString ''https://github.com/octocat/Spoon-Knife''),
              (''description'', JNull)]"


definition tool_call_response :: GenerateContentResponse where
  "tool_call_response =
     \<lparr>resp_text = None, candidates = None,
      functionCalls = Some [\<lparr>call_name = Some ''list_github_repositories''\<rparr>]\<rparr>"

definition linked :: Env where
  "linked =
     \<lparr>generateContent = (\<lambda>message loc. ApiOk tool_call_response),
      api_github_user = FetchResponse True (Some octocat),
      api_github_repos = FetchResponse True (Some (JArray [hello_world, spoon_knife])),
      api_auth_github_url = FetchResponse True (Some ''https://github.com/login/oauth/authorize'')\<rparr>"

definition oauth_success :: MessageData where
  "oauth_success = \<lparr>msg_type = Some ''OAUTH_AUTH_SUCCESS'', provider = Some ''github''\<rparr>"

section \<open>Notions of the specification\<close>

text \<open>
  The lines of a markdown text: a line ends at a line feed, at a carriage return, or at
  a carriage return followed by a line feed. A bullet line begins with a hyphen and a
  space.
\<close>

fun md_lines :: "string \<Rightarrow> string list" where
  "md_lines [] = [[]]"
| "md_lines (c # cs) =
     (if c = CHR 0x0A then [] # md_lines cs
      else if c = CHR 0x0D then
        (case cs of
           [] \<Rightarrow> [] # md_lines cs
         | d # _ \<Rightarrow> if d = CHR 0x0A then md_lines cs else [] # md_lines cs)
      else (case md_lines cs of
              [] \<Rightarrow> [[c]]
            | l # ls \<Rightarrow> (c # l) # ls))"

definition bullet_lines :: "string \<Rightarrow> string list" where
  "bullet_lines t = filter (\<lambda>l. take 2 l = ''- '') (md_lines t)"

text \<open>
  The inline link that opens a bullet line: after the marker an opening bracket, the
  link text up to the first closing bracket, an opening parenthesis, and the target up
  to the first closing parenthesis. There is no link when the text holds a bracket or
  the target holds a space, a bracket or a parenthesis.
\<close>

definition bullet_link :: "string \<Rightarrow> (string \<times> string) option" where
  "bullet_link l =
     (case drop 2 l of
        [] \<Rightarrow> None
      | c # rest \<Rightarrow>
          if c \<noteq> CHR ''['' then None
          else
            (let txt = takeWhile (\<lambda>x. x \<noteq> CHR '']'') rest
             in case dropWhile (\<lambda>x. x \<noteq> CHR '']'') rest of
                  b # p # rest2 \<Rightarrow>
                    (let tgt = takeWhile (\<lambda>x. x \<noteq> CHR '')'') rest2
                     in if p = CHR ''('' \<and> dropWhile (\<lambda>x. x \<noteq> CHR '')'') rest2 \<noteq> []
                           \<and> CHR ''['' \<notin> set txt
                           \<and> list_all (\<lambda>x. x \<notin> set '' ()<>[]'') tgt
                        then Some (txt, tgt) else None)
                | _ \<Rightarrow> None))"

text \<open>
  A repository as GitHub serves it: an object whose \<^verbatim>\<open>name\<close> is a non-empty string of
  letters, digits, dots, hyphens and underscores, whose \<^verbatim>\<open>html_url\<close> is a string of
  these and of slashes and colons, and whose \<^verbatim>\<open>description\<close> is absent, \<^verbatim>\<open>null\<close> or
  a string without control characters.
\<close>

definition name_char :: "char \<Rightarrow> bool" where
  "name_char c \<longleftrightarrow>
     c \<in> set ''abcdefghijklmnopqrstuvwxyzABCDEFGHIJKLMNOPQRSTUVWXYZ0123456789._-''"

definition url_char :: "char \<Rightarrow> bool" where
  "url_char c \<longleftrightarrow> name_char c \<or> c = CHR ''/'' \<or> c = CHR '':''"

definition control_char :: "char \<Rightarrow> bool" where
  "control_char c \<longleftrightarrow> (of_char c :: nat) < 32 \<or> (of_char c :: nat) = 127"

definition repo_name :: "json \<Rightarrow> string" where
  "repo_name r = (case get_prop r ''name'' of Inr (Some (JString n)) \<Rightarrow> n | _ \<Rightarrow> [])"

definition repo_url :: "json \<Rightarrow> string" where
  "repo_url r = (case get_prop r ''html_url'' of Inr (Some (JString u)) \<Rightarrow> u | _ \<Rightarrow> [])"

definition github_repo :: "json \<Rightarrow> bool" where
  "github_repo r \<longleftrightarrow>
     (case get_prop r ''name'' of
        Inr (Some (JString n)) \<Rightarrow> n \<noteq> [] \<and> list_all name_char n
      | _ \<Rightarrow> False)
     \<and> (case get_prop r ''html_url'' of
          Inr (Some (JString u)) \<Rightarrow> list_all url_char u
        | _ \<Rightarrow> False)
     \<and> (case get_prop r ''description'' of
          Inr None \<Rightarrow> True
        | Inr (Some JNull) \<Rightarrow> True
        | Inr (Some (JString d)) \<Rightarrow> list_all (\<lambda>c. \<not> control_char c) d
        | _ \<Rightarrow> False)"


text \<open>
  The allow-list in the words of the specification: the origin of the deployed
  application itself, or an origin whose host is the local development host, with any
  scheme and any port.
\<close>

definition origin_host :: "string \<Rightarrow> string" where
  "origin_host url =
     takeWhile (\<lambda>c. c \<noteq> CHR '':'') (drop 3 (dropWhile (\<lambda>c. c \<noteq> CHR '':'') url))"

definition claimed_allowed_origin :: "string \<Rightarrow> string \<Rightarrow> bool" where
  "claimed_allowed_origin app_origin url \<longleftrightarrow>
     url = app_origin \<or> origin_host url = ''localhost'' \<or> origin_host url = ''127.0.0.1''"

section \<open>Properties\<close>

lemma dropWhile_all_Nil: "(\<forall>c \<in> set (dropWhile P s). P c) \<Longrightarrow> dropWhile P s = []"
  using hd_dropWhile [of P s] by (cases "dropWhile P s") auto

lemma trim_empty_iff: "trim s = [] \<longleftrightarrow> (\<forall>c \<in> set s. isWhiteSpace c)"
proof
  assume "trim s = []"
  then have "\<forall>c \<in> set (dropWhile isWhiteSpace s). isWhiteSpace c"
    by (simp add: trim_def dropWhile_eq_Nil_conv)
  then have "dropWhile isWhiteSpace s = []"
    by (rule dropWhile_all_Nil)
  then show "\<forall>c \<in> set s. isWhiteSpace c"
    by (simp add: dropWhile_eq_Nil_conv)
next
  assume "\<forall>c \<in> set s. isWhiteSpace c"
  then show "trim s = []"
    by (auto simp: trim_def dest: set_dropWhileD)
qed

lemma endsWith_suffix: "endsWith s t \<longleftrightarrow> suffix t s"
proof
  assume "endsWith s t"
  then have "drop (length s - length t) s = t" by (simp add: endsWith_def)
  then show "suffix t s" by (metis suffix_drop)
next
  assume "suffix t s"
  then obtain p where "s = p @ t" by (auto simp: suffix_def)
  then show "endsWith s t" by (simp add: endsWith_def)
qed

lemma take_prefix: "take (length t) s = t \<longleftrightarrow> prefix t s"
  by (metis append_eq_conv_conj prefix_def)

lemma includes_sublist: "includes_str s t \<longleftrightarrow> sublist t s"
  by (induction s) (auto simp: sublist_Cons_right take_prefix simp del: take_Suc_Cons)






text \<open>
  An accepted submission, in one equation: the user turn, then nothing when the try
  block throws, else the reply of the tool call or the message of \<^verbatim>\<open>chatWithMaps\<close>.
\<close>

lemma handleSend_accepted:
  assumes "trim (input s) \<noteq> []" and "\<not> isLoading s"
  shows "handleSend ai s =
     s\<lparr>messages := messages s @ \<lparr>role = User, msg_text = input s, mapResults = None\<rparr> #
          (case (case functionCalls (fst (chatWithMaps ai (input s) (location s))) of
                   None \<Rightarrow> Inr None
                 | Some calls \<Rightarrow> function_calls_loop (githubUser s) (githubRepos s) calls) of
             Inl e \<Rightarrow> []
           | Inr (Some reply) \<Rightarrow> [reply]
           | Inr None \<Rightarrow> [snd (chatWithMaps ai (input s) (location s))]),
       input := [], isLoading := False,
       effects := effects s @ [GenerateContent (input s) (location s)]\<rparr>"
  using assms by (simp add: handleSend_def Let_def split: prod.splits option.splits sum.splits)








text \<open>
  Claim C8. When the input is empty or consists of white space only, or when a request
  is in flight, a submission (by the button or by the Enter key) leaves the state as it
  is: no message is appended and no outside call is made.
\<close>

theorem C8_refused_submission:
  assumes "(\<forall>c \<in> set (input s). isWhiteSpace c) \<or> isLoading s"
  shows "handleSend ai s = s
         \<and> messages (handleSend ai s) = messages s
         \<and> effects (handleSend ai s) = effects s
         \<and> handleKeyPress ai key shiftKey s = s"
  using assms by (auto simp: handleSend_def handleKeyPress_def trim_empty_iff)

theorem C8_witness:
  "handleSend (generateContent offline) (initial_state\<lparr>input := '' \<newline> ''\<rparr>) =
     initial_state\<lparr>input := '' \<newline> ''\<rparr>
   \<and> handleSend (generateContent offline) (initial_state\<lparr>input := ''pizza'', isLoading := True\<rparr>) =
     initial_state\<lparr>input := ''pizza'', isLoading := True\<rparr>"
proof -
  have a: "(\<forall>c \<in> set (input (initial_state\<lparr>input := '' \<newline> ''\<rparr>)). isWhiteSpace c)
           \<or> isLoading (initial_state\<lparr>input := '' \<newline> ''\<rparr>)"
    by (simp add: isWhiteSpace_def)
  have b: "(\<forall>c \<in> set (input (initial_state\<lparr>input := ''pizza'', isLoading := True\<rparr>)). isWhiteSpace c)
           \<or> isLoading (initial_state\<lparr>input := ''pizza'', isLoading := True\<rparr>)"
    by simp
  from C8_refused_submission [OF a] C8_refused_submission [OF b]
  show ?thesis by simp
qed

text \<open>
  Claim C9. A click on the map at \<open>(lat, lng)\<close> sets the centre of the map to
  \<open>(lat, lng)\<close> and the zoom level to 15, whatever the zoom level was; every other
  component of the state is as before.
\<close>

theorem C9_map_click:
  "step env (MapClick lat lng) s = s\<lparr>mapCenter := (lat, lng), zoom := 15\<rparr>
   \<and> mapCenter (step env (MapClick lat lng) s) = (lat, lng)
   \<and> zoom (step env (MapClick lat lng) s) = 15"
  by (simp add: MapEvents_click_def onLocationSelect_def)

theorem C9_witness:
  "step offline (MapClick 48.85 2.35) (initial_state\<lparr>zoom := 4\<rparr>) =
     initial_state\<lparr>mapCenter := (48.85, 2.35), zoom := 15\<rparr>"
  using C9_map_click [of offline "48.85" "2.35" "initial_state\<lparr>zoom := 4\<rparr>"] by simp

lemma fetchGithubRepos_keeps:
  "messages (fetchGithubRepos env s) = messages s \<and> zoom (fetchGithubRepos env s) = zoom s"
  by (simp add: fetchGithubRepos_def Let_def split: fetch_outcome.splits option.splits bool.splits)

lemma fetchGithubUser_keeps:
  "messages (fetchGithubUser env s) = messages s \<and> zoom (fetchGithubUser env s) = zoom s"
  by (simp add: fetchGithubUser_def fetchGithubRepos_keeps Let_def
      split: fetch_outcome.splits option.splits bool.splits)

lemma handleConnectGithub_keeps:
  "messages (handleConnectGithub env s) = messages s \<and> zoom (handleConnectGithub env s) = zoom s"
  by (simp add: handleConnectGithub_def Let_def split: fetch_outcome.splits option.splits)

lemma handleMessage_keeps:
  "messages (handleMessage env ev s) = messages s \<and> zoom (handleMessage env ev s) = zoom s"
  by (simp add: handleMessage_def fetchGithubUser_keeps)

lemma handleSend_zoom: "zoom (handleSend ai s) = zoom s"
  by (simp add: handleSend_def Let_def split: prod.splits option.splits sum.splits)

lemma handleSend_prefix: "prefix (messages s) (messages (handleSend ai s))"
  by (simp add: handleSend_def Let_def split: prod.splits option.splits sum.splits)

lemma step_zoom:
  "3 \<le> zoom s \<Longrightarrow> zoom s \<le> 18 \<Longrightarrow> 3 \<le> zoom (step env e s) \<and> zoom (step env e s) \<le> 18"
  by (cases e)
     (simp_all add: fetchGithubUser_keeps handleMessage_keeps handleConnectGithub_keeps
        handleSend_zoom handleKeyPress_def geolocationSuccess_def MapEvents_click_def
        onLocationSelect_def recenter_def zoomIn_def zoomOut_def split: option.splits)

lemma run_zoom:
  "3 \<le> zoom s \<Longrightarrow> zoom s \<le> 18 \<Longrightarrow> 3 \<le> zoom (run evs s) \<and> zoom (run evs s) \<le> 18"
proof (induction evs arbitrary: s)
  case Nil
  then show ?case by simp
next
  case (Cons a evs)
  obtain env e where a: "a = (env, e)" by (cases a)
  from step_zoom [OF Cons.prems, of env e] Cons.IH [of "step env e s"]
  show ?case by (simp add: a)
qed

lemma step_prefix: "prefix (messages s) (messages (step env e s))"
  by (cases e)
     (simp_all add: fetchGithubUser_keeps handleMessage_keeps handleConnectGithub_keeps
        handleSend_prefix handleKeyPress_def geolocationSuccess_def MapEvents_click_def
        onLocationSelect_def recenter_def zoomIn_def zoomOut_def split: option.splits)

lemma run_prefix: "prefix (messages s) (messages (run evs s))"
proof (induction evs arbitrary: s)
  case Nil
  then show ?case by simp
next
  case (Cons a evs)
  obtain env e where a: "a = (env, e)" by (cases a)
  have "prefix (messages s) (messages (step env e s))" by (rule step_prefix)
  also have "prefix (messages (step env e s)) (messages (run evs (step env e s)))"
    by (rule Cons.IH)
  finally show ?case by (simp add: a)
qed

text \<open>
  Claim C5. After any sequence of events from the initial state (the zoom buttons, the
  map click that sets the level, and every other event), the zoom level lies between 3
  and 18. The initial level is 13, and ten increments give 18: the buttons clamp.
\<close>

theorem C5_zoom_range:
  "3 \<le> zoom (run evs initial_state) \<and> zoom (run evs initial_state) \<le> 18
   \<and> zoom initial_state = 13
   \<and> zoom (run (replicate 10 (env, ClickZoomIn)) initial_state) = 18"
proof -
  have "3 \<le> zoom initial_state" and "zoom initial_state \<le> 18"
    by (simp_all add: initial_state_def)
  then have "3 \<le> zoom (run evs initial_state) \<and> zoom (run evs initial_state) \<le> 18"
    by (rule run_zoom)
  moreover have "zoom (run (replicate 10 (env, ClickZoomIn)) initial_state) = 18"
    by (simp add: numeral_eq_Suc zoomIn_def initial_state_def)
  ultimately show ?thesis by (simp add: initial_state_def)
qed

theorem C5_witness:
  "3 \<le> zoom (run [(offline, ClickZoomOut), (offline, MapClick 48.85 2.35), (offline, ClickZoomIn)]
                initial_state)
   \<and> zoom (run [(offline, ClickZoomOut), (offline, MapClick 48.85 2.35), (offline, ClickZoomIn)]
                initial_state) \<le> 18
   \<and> zoom (run (replicate 10 (offline, ClickZoomIn)) initial_state) = 18"
  using C5_zoom_range
    [of "[(offline, ClickZoomOut), (offline, MapClick 48.85 2.35), (offline, ClickZoomIn)]" offline]
  by simp

text \<open>
  Claim C7. The transcript is append-only: after any event, and after any sequence of
  events, the earlier transcript is a prefix of the new one. The Clear Chat button,
  which has no handler, leaves the transcript as it is.
\<close>

theorem C7_transcript_append_only:
  "prefix (messages s) (messages (step env e s))
   \<and> prefix (messages s) (messages (run evs s))
   \<and> messages (step env ClickClearChat s) = messages s"
  by (simp add: step_prefix run_prefix)

theorem C7_witness:
  "prefix (messages initial_state)
     (messages (run [(offline, InputChange ''museums''), (offline, ClickSend), (offline, ClickClearChat)]
        initial_state))
   \<and> length (messages (run [(offline, InputChange ''museums''), (offline, ClickSend),
        (offline, ClickClearChat)] initial_state)) = 3"
proof -
  have "length (messages (run [(offline, InputChange ''museums''), (offline, ClickSend),
          (offline, ClickClearChat)] initial_state)) = 3"
    by (simp add: handleSend_def trim_def isWhiteSpace_def chatWithMaps_def offline_def
        empty_response_def initial_state_def)
  with C7_transcript_append_only
    [of initial_state offline ClickClearChat
        "[(offline, InputChange ''museums''), (offline, ClickSend), (offline, ClickClearChat)]"]
  show ?thesis by simp
qed

lemma axios_resolved_None_iff:
  "axios_resolved out = None \<longleftrightarrow>
     out = AxiosNetworkError \<or> (\<exists>st d. out = AxiosResponse st d \<and> \<not> (200 \<le> st \<and> st < 300))"
  by (cases out) (auto simp: validateStatus_def)

lemma session_token_None_iff:
  "session_token req = None \<longleftrightarrow>
     session req = None \<or> (\<exists>ss. session req = Some ss \<and> githubToken ss = None)"
  by (auto simp: session_token_def split: option.splits)

text \<open>
  The callback answers 400 without a code, and 500 when axios rejects the exchange; the
  session is as before in both cases.
\<close>

lemma callback_rejections:
  "(query req ''code'' = None \<longrightarrow>
      status (response (auth_github_callback penv axios_post req)) = 400
      \<and> upstream_calls (auth_github_callback penv axios_post req) = []
      \<and> session_after (auth_github_callback penv axios_post req) = session req)
   \<and> (\<forall>code. query req ''code'' = Some code
         \<longrightarrow> axios_resolved (axios_post (PostAccessToken (GITHUB_CLIENT_ID penv)
                 (GITHUB_CLIENT_SECRET penv) code)) = None
         \<longrightarrow> status (response (auth_github_callback penv axios_post req))
               = (if truthy code then 500 else 400)
             \<and> session_after (auth_github_callback penv axios_post req) = session req)"
  by (simp add: auth_github_callback_def Let_def)

text \<open>
  A reply that axios resolves is no failure for the handler, whatever its data: without
  an \<^verbatim>\<open>access_token\<close> in it, the undefined token is stored and the success page is sent.
\<close>

lemma callback_reply_without_token:
  assumes "query req ''code'' = Some code" and "truthy code"
    and "axios_post (PostAccessToken (GITHUB_CLIENT_ID penv) (GITHUB_CLIENT_SECRET penv) code)
           = AxiosResponse 200 \<lparr>access_token = None\<rparr>"
    and "session req = Some ss"
  shows "status (response (auth_github_callback penv axios_post req)) = 200
         \<and> session_after (auth_github_callback penv axios_post req)
             = Some (ss\<lparr>githubToken := None\<rparr>)"
  using assms by (simp add: auth_github_callback_def validateStatus_def)

text \<open>
  Claim C4 fails on the code. GitHub answers an exchange that fails on a bad or expired
  code with status 200 and a body that holds an error and no \<^verbatim>\<open>access_token\<close>. Axios
  resolves, so the handler overwrites the token of the session with the undefined one
  and sends the success page with status 200, where the claim asks for an error status
  and an untouched session.
\<close>

theorem C4_failed_exchange_accepted:
  "status (response (auth_github_callback sample_penv
      (\<lambda>call. AxiosResponse 200 \<lparr>access_token = None\<rparr>)
      \<lparr>query = [''code'' \<mapsto> QString ''expired''],
       session = Some \<lparr>githubToken = Some ''gho_16C7e42F''\<rparr>\<rparr>)) = 200
   \<and> body (response (auth_github_callback sample_penv
      (\<lambda>call. AxiosResponse 200 \<lparr>access_token = None\<rparr>)
      \<lparr>query = [''code'' \<mapsto> QString ''expired''],
       session = Some \<lparr>githubToken = Some ''gho_16C7e42F''\<rparr>\<rparr>)) = SendText success_page
   \<and> session_after (auth_github_callback sample_penv
      (\<lambda>call. AxiosResponse 200 \<lparr>access_token = None\<rparr>)
      \<lparr>query = [''code'' \<mapsto> QString ''expired''],
       session = Some \<lparr>githubToken = Some ''gho_16C7e42F''\<rparr>\<rparr>) = Some \<lparr>githubToken = None\<rparr>
   \<and> upstream_calls (auth_github_callback sample_penv
      (\<lambda>call. AxiosResponse 200 \<lparr>access_token = None\<rparr>)
      \<lparr>query = [''code'' \<mapsto> QString ''expired''],
       session = Some \<lparr>githubToken = Some ''gho_16C7e42F''\<rparr>\<rparr>)
     = [PostAccessToken (Some ''Iv1.0123456789abcdef'') (Some ''s3cr3t'') (QString ''expired'')]"
  by (simp add: auth_github_callback_def validateStatus_def sample_penv_def)

text \<open>
  Claim C6. When the session holds no token, both \<^verbatim>\<open>/api/github/user\<close> and
  \<^verbatim>\<open>/api/github/repos\<close> answer 401 and send nothing upstream.
\<close>

theorem C6_unauthenticated:
  assumes "session_token req = None"
  shows "status (response (github_user axios_get req)) = 401
         \<and> upstream_calls (github_user axios_get req) = []
         \<and> status (response (github_repos axios_get req)) = 401
         \<and> upstream_calls (github_repos axios_get req) = []"
  using assms by (simp add: github_user_def github_repos_def)

theorem C6_witness:
  "status (response (github_user (\<lambda>call. AxiosResponse 200 JNull)
      \<lparr>query = Map.empty, session = Some \<lparr>githubToken = None\<rparr>\<rparr>)) = 401
   \<and> upstream_calls (github_repos (\<lambda>call. AxiosResponse 200 JNull)
      \<lparr>query = Map.empty, session = None\<rparr>) = []"
proof -
  have a: "session_token \<lparr>query = Map.empty, session = Some \<lparr>githubToken = None\<rparr>\<rparr> = None"
    by (simp add: session_token_def)
  have b: "session_token \<lparr>query = Map.empty, session = None\<rparr> = None"
    by (simp add: session_token_def)
  from C6_unauthenticated [OF a, of "\<lambda>call. AxiosResponse 200 JNull"]
       C6_unauthenticated [OF b, of "\<lambda>call. AxiosResponse 200 JNull"]
  show ?thesis by simp
qed

text \<open>
  Claim C10. Two callback requests with the same session whose queries agree on every
  parameter but \<^verbatim>\<open>state\<close> (present with any value, or absent) are handled alike: the
  same exchange, the same session afterwards, the same response. The endpoint that
  issues the state keeps no record of it: it leaves the session as it is and sends
  nothing.
\<close>

theorem C10_state_ignored:
  assumes "session r1 = session r2"
    and "\<forall>k. k \<noteq> ''state'' \<longrightarrow> query r1 k = query r2 k"
  shows "auth_github_callback penv axios_post r1 = auth_github_callback penv axios_post r2
         \<and> session_after (auth_github_url penv toString rnd req) = session req
         \<and> upstream_calls (auth_github_url penv toString rnd req) = []"
proof -
  have c: "query r1 ''code'' = query r2 ''code''"
    using assms(2) by simp
  have "auth_github_callback penv axios_post r1 = auth_github_callback penv axios_post r2"
    by (simp only: auth_github_callback_def assms(1) c)
  then show ?thesis
    by (simp add: auth_github_url_def)
qed

theorem C10_witness:
  "(auth_github_callback sample_penv (\<lambda>call. AxiosResponse 200 \<lparr>access_token = Some ''gho_16C7e42F''\<rparr>)
      \<lparr>query = [''code'' \<mapsto> QString ''4f2a'', ''state'' \<mapsto> QString ''forged''],
       session = Some \<lparr>githubToken = None\<rparr>\<rparr>)
   = auth_github_callback sample_penv (\<lambda>call. AxiosResponse 200 \<lparr>access_token = Some ''gho_16C7e42F''\<rparr>)
      \<lparr>query = [''code'' \<mapsto> QString ''4f2a''], session = Some \<lparr>githubToken = None\<rparr>\<rparr>
   \<and> session_after (auth_github_callback sample_penv
        (\<lambda>call. AxiosResponse 200 \<lparr>access_token = Some ''gho_16C7e42F''\<rparr>)
        \<lparr>query = [''code'' \<mapsto> QString ''4f2a'', ''state'' \<mapsto> QString ''forged''],
         session = Some \<lparr>githubToken = None\<rparr>\<rparr>)
     = Some \<lparr>githubToken = Some ''gho_16C7e42F''\<rparr>"
proof -
  let ?r1 = "\<lparr>query = [''code'' \<mapsto> QString ''4f2a'', ''state'' \<mapsto> QString ''forged''],
              session = Some \<lparr>githubToken = None\<rparr>\<rparr>"
  let ?r2 = "\<lparr>query = [''code'' \<mapsto> QString ''4f2a''], session = Some \<lparr>githubToken = None\<rparr>\<rparr>"
  have a: "session ?r1 = session ?r2" by simp
  have b: "\<forall>k. k \<noteq> ''state'' \<longrightarrow> query ?r1 k = query ?r2 k" by simp
  have c: "session_after (auth_github_callback sample_penv
        (\<lambda>call. AxiosResponse 200 \<lparr>access_token = Some ''gho_16C7e42F''\<rparr>) ?r2)
     = Some \<lparr>githubToken = Some ''gho_16C7e42F''\<rparr>"
    by (simp add: auth_github_callback_def validateStatus_def)
  from C10_state_ignored [OF a b, of sample_penv
      "\<lambda>call. AxiosResponse 200 \<lparr>access_token = Some ''gho_16C7e42F''\<rparr>"] c
  show ?thesis by simp
qed

lemma md_lines_single:
  "CHR 0x0A \<notin> set a \<Longrightarrow> CHR 0x0D \<notin> set a \<Longrightarrow> md_lines a = [a]"
  by (induction a) auto

lemma md_lines_append:
  "CHR 0x0A \<notin> set a \<Longrightarrow> CHR 0x0D \<notin> set a \<Longrightarrow> md_lines (a @ CHR 0x0A # b) = a # md_lines b"
  by (induction a) auto

lemma md_lines_join:
  "xs \<noteq> [] \<Longrightarrow> \<forall>x \<in> set xs. CHR 0x0A \<notin> set x \<and> CHR 0x0D \<notin> set x \<Longrightarrow>
   md_lines (join ''\<newline>'' xs) = xs"
proof (induction "''\<newline>''" xs rule: join.induct)
  case 1
  then show ?case by simp
next
  case (2 x)
  then show ?case by (simp add: md_lines_single)
next
  case (3 x y ys)
  then show ?case by (simp add: md_lines_append)
qed

lemma name_char_plain:
  "name_char c \<Longrightarrow> c \<noteq> CHR ''['' \<and> c \<noteq> CHR '']'' \<and> c \<noteq> CHR 0x0A \<and> c \<noteq> CHR 0x0D"
  by (auto simp: name_char_def)

lemma url_char_plain:
  "url_char c \<Longrightarrow> c \<notin> set '' ()<>[]'' \<and> c \<noteq> CHR 0x0A \<and> c \<noteq> CHR 0x0D"
  by (auto simp: url_char_def name_char_def)

lemma not_control_plain: "\<not> control_char c \<Longrightarrow> c \<noteq> CHR 0x0A \<and> c \<noteq> CHR 0x0D"
  by (auto simp: control_char_def)

lemma takeWhile_upto:
  "\<forall>x \<in> set n. x \<noteq> c \<Longrightarrow> takeWhile (\<lambda>x. x \<noteq> c) (n @ c # rest) = n"
  by (simp add: takeWhile_append2)

lemma dropWhile_upto:
  "\<forall>x \<in> set n. x \<noteq> c \<Longrightarrow> dropWhile (\<lambda>x. x \<noteq> c) (n @ c # rest) = c # rest"
  by (simp add: dropWhile_append2)

lemma bullet_link_line:
  assumes "list_all name_char n" and "list_all url_char u"
  shows "bullet_link (''- ['' @ n @ '']('' @ u @ ''): '' @ desc) = Some (n, u)"
proof -
  have n1: "\<forall>x \<in> set n. x \<noteq> CHR '']''" and n2: "CHR ''['' \<notin> set n"
    using assms(1) name_char_plain by (auto simp: list_all_iff)
  have u1: "\<forall>x \<in> set u. x \<noteq> CHR '')''" and u2: "list_all (\<lambda>x. x \<notin> set '' ()<>[]'') u"
    using assms(2) url_char_plain by (auto simp: list_all_iff)
  show ?thesis
    using n2 u2
    by (simp add: bullet_link_def takeWhile_upto [OF n1] dropWhile_upto [OF n1]
        takeWhile_upto [OF u1] dropWhile_upto [OF u1])
qed

lemma repo_line_github:
  assumes "github_repo r"
  shows "\<exists>desc. repo_line r
            = Inr (''- ['' @ repo_name r @ '']('' @ repo_url r @ ''): '' @ desc)
          \<and> CHR 0x0A \<notin> set desc \<and> CHR 0x0D \<notin> set desc"
    and "list_all name_char (repo_name r)" and "list_all url_char (repo_url r)"
proof -
  from assms obtain n u where
    n: "get_prop r ''name'' = Inr (Some (JString n))" "list_all name_char n"
    and u: "get_prop r ''html_url'' = Inr (Some (JString u))" "list_all url_char u"
    by (auto simp: github_repo_def split: sum.splits option.splits json.splits)
  show "list_all name_char (repo_name r)" "list_all url_char (repo_url r)"
    using n u by (simp_all add: repo_name_def repo_url_def)
  from assms consider
      "get_prop r ''description'' = Inr None"
    | "get_prop r ''description'' = Inr (Some JNull)"
    | d where "get_prop r ''description'' = Inr (Some (JString d))"
        "list_all (\<lambda>c. \<not> control_char c) d"
    by (auto simp: github_repo_def split: sum.splits option.splits json.splits)
  then show "\<exists>desc. repo_line r
            = Inr (''- ['' @ repo_name r @ '']('' @ repo_url r @ ''): '' @ desc)
          \<and> CHR 0x0A \<notin> set desc \<and> CHR 0x0D \<notin> set desc"
  proof cases
    case 1
    then show ?thesis
      using n u by (simp add: repo_line_def repo_name_def repo_url_def)
  next
    case 2
    then show ?thesis
      using n u by (simp add: repo_line_def repo_name_def repo_url_def)
  next
    case 3
    from 3(2) not_control_plain have "CHR 0x0A \<notin> set d \<and> CHR 0x0D \<notin> set d"
      by (auto simp: list_all_iff)
    then show ?thesis
      using n u 3(1) by (simp add: repo_line_def repo_name_def repo_url_def)
  qed
qed

lemma map_repo_line_github:
  assumes "list_all github_repo rs"
  shows "\<exists>ls. map_repo_line rs = Inr ls \<and> length ls = length rs
           \<and> (\<forall>l \<in> set ls. take 2 l = ''- '' \<and> CHR 0x0A \<notin> set l \<and> CHR 0x0D \<notin> set l)
           \<and> map bullet_link ls = map (\<lambda>r. Some (repo_name r, repo_url r)) rs"
  using assms
proof (induction rs)
  case Nil
  then show ?case by simp
next
  case (Cons r rs)
  then have g: "github_repo r" and "list_all github_repo rs"
    by simp_all
  with Cons.IH obtain ls where ls: "map_repo_line rs = Inr ls" "length ls = length rs"
    "\<forall>l \<in> set ls. take 2 l = ''- '' \<and> CHR 0x0A \<notin> set l \<and> CHR 0x0D \<notin> set l"
    "map bullet_link ls = map (\<lambda>r. Some (repo_name r, repo_url r)) rs"
    by blast
  from repo_line_github [OF g] obtain desc where
    l: "repo_line r = Inr (''- ['' @ repo_name r @ '']('' @ repo_url r @ ''): '' @ desc)"
    and d: "CHR 0x0A \<notin> set desc" "CHR 0x0D \<notin> set desc"
    and nc: "list_all name_char (repo_name r)" and uc: "list_all url_char (repo_url r)"
    by blast
  let ?l = "''- ['' @ repo_name r @ '']('' @ repo_url r @ ''): '' @ desc"
  have plain: "CHR 0x0A \<notin> set ?l \<and> CHR 0x0D \<notin> set ?l"
    using d nc uc name_char_plain url_char_plain by (auto simp: list_all_iff)
  have bl: "bullet_link ?l = Some (repo_name r, repo_url r)"
    using nc uc by (rule bullet_link_line)
  have mk: "take 2 ?l = ''- ''"
    by simp
  have "map_repo_line (r # rs) = Inr (?l # ls)"
    by (simp add: l ls(1))
  moreover have "length (?l # ls) = length (r # rs)"
    by (simp add: ls(2))
  moreover have "\<forall>l \<in> set (?l # ls). take 2 l = ''- '' \<and> CHR 0x0A \<notin> set l \<and> CHR 0x0D \<notin> set l"
    using plain mk ls(3) by (simp del: append.simps)
  moreover have "map bullet_link (?l # ls) = map (\<lambda>r. Some (repo_name r, repo_url r)) (r # rs)"
    using bl ls(4) by (simp del: append.simps)
  ultimately show ?case by blast
qed

lemma bullet_lines_reply:
  assumes "\<forall>l \<in> set ls. take 2 l = ''- '' \<and> CHR 0x0A \<notin> set l \<and> CHR 0x0D \<notin> set l"
  shows "bullet_lines (repos_header @ ''\<newline>\<newline>'' @ join ''\<newline>'' ls) = ls"
proof -
  have h: "CHR 0x0A \<notin> set repos_header" "CHR 0x0D \<notin> set repos_header"
    by (simp_all add: repos_header_def)
  have j: "md_lines (join ''\<newline>'' ls) = (if ls = [] then [[]] else ls)"
    using assms by (simp add: md_lines_join)
  have "md_lines (repos_header @ ''\<newline>\<newline>'' @ join ''\<newline>'' ls)
          = repos_header # [] # md_lines (join ''\<newline>'' ls)"
    using md_lines_append [OF h, of "CHR 0x0A # join ''\<newline>'' ls"] by simp
  moreover have "filter (\<lambda>l. take 2 l = ''- '') ls = ls"
    using assms by (simp add: filter_id_conv)
  ultimately show ?thesis
    by (simp add: bullet_lines_def j repos_header_def)
qed

lemma loop_found:
  "\<exists>c \<in> set calls. call_name c = Some ''list_github_repositories'' \<Longrightarrow>
   function_calls_loop user repos calls =
     (case user of
        None \<Rightarrow> Inr (Some \<lparr>role = Model, msg_text = link_prompt, mapResults = None\<rparr>)
      | Some u \<Rightarrow>
          (case repoList repos of
             Inl e \<Rightarrow> Inl e
           | Inr l \<Rightarrow> Inr (Some \<lparr>role = Model,
                                  msg_text = repos_header @ ''\<newline>\<newline>'' @ l,
                                  mapResults = None\<rparr>)))"
proof (induction calls)
  case Nil
  then show ?case by simp
next
  case (Cons a calls)
  show ?case
  proof (cases "call_name a = Some ''list_github_repositories''")
    case True
    then show ?thesis by (simp split: option.splits)
  next
    case False
    with Cons.prems have "\<exists>c \<in> set calls. call_name c = Some ''list_github_repositories''"
      by auto
    with Cons.IH False show ?thesis by simp
  qed
qed

lemma handleSend_effects:
  "trim (input s) \<noteq> [] \<Longrightarrow> \<not> isLoading s \<Longrightarrow>
   effects (handleSend ai s) = effects s @ [GenerateContent (input s) (location s)]"
  by (simp add: handleSend_accepted)

lemma handleSend_tool_call:
  assumes "trim (input s) \<noteq> []" and "\<not> isLoading s"
    and "ai (input s) (location s) = ApiOk r"
    and "functionCalls r = Some calls"
    and "\<exists>c \<in> set calls. call_name c = Some ''list_github_repositories''"
    and "function_calls_loop (githubUser s) (githubRepos s) calls = Inr (Some reply)"
  shows "messages (handleSend ai s) =
           messages s @ [\<lparr>role = User, msg_text = input s, mapResults = None\<rparr>, reply]"
proof -
  have cw: "fst (chatWithMaps ai (input s) (location s)) = r"
    using assms(3) by (simp add: chatWithMaps_def Let_def)
  show ?thesis
    by (simp add: handleSend_accepted [OF assms(1,2)] cw assms(4) assms(6))
qed

text \<open>
  Claim C2. When the response of the generative API carries a call named
  \<^verbatim>\<open>list_github_repositories\<close>: without a linked account the assistant turn is exactly
  the fixed text that asks to connect; with a linked account and a cached array of
  \<open>N\<close> repositories as GitHub serves them, the assistant turn has exactly \<open>N\<close> bullet
  lines, and the \<open>i\<close>-th opens with a link whose text is the name of the \<open>i\<close>-th
  repository and whose target is its URL; in both cases the generative API was called
  exactly once for the turn.
\<close>

theorem C2_tool_call_reply:
  assumes "trim (input s) \<noteq> []" and "\<not> isLoading s"
    and "ai (input s) (location s) = ApiOk r"
    and "functionCalls r = Some calls"
    and "\<exists>c \<in> set calls. call_name c = Some ''list_github_repositories''"
  shows "(githubUser s = None \<longrightarrow>
            messages (handleSend ai s) =
              messages s @ [\<lparr>role = User, msg_text = input s, mapResults = None\<rparr>,
                            \<lparr>role = Model, msg_text = link_prompt, mapResults = None\<rparr>])
         \<and> (githubUser s \<noteq> None \<longrightarrow>
              (\<forall>rs. githubRepos s = JArray rs \<longrightarrow> list_all github_repo rs \<longrightarrow>
                (\<exists>reply.
                   messages (handleSend ai s) =
                     messages s @ [\<lparr>role = User, msg_text = input s, mapResults = None\<rparr>, reply]
                   \<and> role reply = Model
                   \<and> length (bullet_lines (msg_text reply)) = length rs
                   \<and> map bullet_link (bullet_lines (msg_text reply))
                       = map (\<lambda>r. Some (repo_name r, repo_url r)) rs)))
         \<and> effects (handleSend ai s) = effects s @ [GenerateContent (input s) (location s)]"
proof (intro conjI impI allI)
  assume "githubUser s = None"
  then have "function_calls_loop (githubUser s) (githubRepos s) calls
               = Inr (Some \<lparr>role = Model, msg_text = link_prompt, mapResults = None\<rparr>)"
    by (simp add: loop_found [OF assms(5)])
  with assms show "messages (handleSend ai s) =
      messages s @ [\<lparr>role = User, msg_text = input s, mapResults = None\<rparr>,
                    \<lparr>role = Model, msg_text = link_prompt, mapResults = None\<rparr>]"
    by (rule handleSend_tool_call)
next
  fix rs
  assume u: "githubUser s \<noteq> None" and p: "githubRepos s = JArray rs"
    and g: "list_all github_repo rs"
  from map_repo_line_github [OF g] obtain ls where
    ls: "map_repo_line rs = Inr ls" "length ls = length rs"
    "\<forall>l \<in> set ls. take 2 l = ''- '' \<and> CHR 0x0A \<notin> set l \<and> CHR 0x0D \<notin> set l"
    "map bullet_link ls = map (\<lambda>r. Some (repo_name r, repo_url r)) rs"
    by blast
  let ?text = "repos_header @ ''\<newline>\<newline>'' @ join ''\<newline>'' ls"
  let ?reply = "\<lparr>role = Model, msg_text = ?text, mapResults = None\<rparr>"
  have rl: "repoList (githubRepos s) = Inr (join ''\<newline>'' ls)"
    by (simp add: repoList_def p ls(1))
  from u obtain usr where "githubUser s = Some usr"
    by auto
  then have "function_calls_loop (githubUser s) (githubRepos s) calls = Inr (Some ?reply)"
    by (simp add: loop_found [OF assms(5)] rl)
  with assms have m: "messages (handleSend ai s) =
      messages s @ [\<lparr>role = User, msg_text = input s, mapResults = None\<rparr>, ?reply]"
    by (rule handleSend_tool_call)
  have b: "bullet_lines (msg_text ?reply) = ls"
    using bullet_lines_reply [OF ls(3)] by simp
  have "role ?reply = Model"
    by simp
  moreover have "length (bullet_lines (msg_text ?reply)) = length rs"
    unfolding b by (rule ls(2))
  moreover have "map bullet_link (bullet_lines (msg_text ?reply))
                   = map (\<lambda>r. Some (repo_name r, repo_url r)) rs"
    unfolding b by (rule ls(4))
  ultimately show "\<exists>reply.
      messages (handleSend ai s) =
        messages s @ [\<lparr>role = User, msg_text = input s, mapResults = None\<rparr>, reply]
      \<and> role reply = Model
      \<and> length (bullet_lines (msg_text reply)) = length rs
      \<and> map bullet_link (bullet_lines (msg_text reply))
          = map (\<lambda>r. Some (repo_name r, repo_url r)) rs"
    using m by blast
next
  show "effects (handleSend ai s) = effects s @ [GenerateContent (input s) (location s)]"
    using assms(1,2) by (rule handleSend_effects)
qed

theorem C2_witness:
  "map bullet_link (bullet_lines (msg_text (last (messages (handleSend (generateContent linked)
      (initial_state\<lparr>input := ''show my repos'', githubUser := Some octocat,
                     githubRepos := JArray [hello_world, spoon_knife]\<rparr>))))))
     = [Some (''Hello-World'', ''https://github.com/octocat/Hello-World''),
        Some (''Spoon-Knife'', ''https://github.com/octocat/Spoon-Knife'')]
   \<and> effects (handleSend (generateContent linked)
      (initial_state\<lparr>input := ''show my repos'', githubUser := Some octocat,
                     githubRepos := JArray [hello_world, spoon_knife]\<rparr>))
     = [GenerateContent ''show my repos'' None]
   \<and> msg_text (last (messages (handleSend (generateContent linked)
        (initial_state\<lparr>input := ''show my repos''\<rparr>)))) = link_prompt"
proof -
  let ?s = "initial_state\<lparr>input := ''show my repos'', githubUser := Some octocat,
                          githubRepos := JArray [hello_world, spoon_knife]\<rparr>"
  let ?s' = "initial_state\<lparr>input := ''show my repos''\<rparr>"
  let ?ai = "generateContent linked"
  let ?calls = "[\<lparr>call_name = Some ''list_github_repositories''\<rparr>]"
  have h1: "trim (input ?s) \<noteq> []" "trim (input ?s') \<noteq> []"
    by (simp_all add: trim_def isWhiteSpace_def)
  have h2: "\<not> isLoading ?s" "\<not> isLoading ?s'"
    by (simp_all add: initial_state_def)
  have h3: "?ai (input ?s) (location ?s) = ApiOk tool_call_response"
    "?ai (input ?s') (location ?s') = ApiOk tool_call_response"
    by (simp_all add: linked_def)
  have h4: "functionCalls tool_call_response = Some ?calls"
    by (simp add: tool_call_response_def)
  have h5: "\<exists>c \<in> set ?calls. call_name c = Some ''list_github_repositories''"
    by simp
  have g: "list_all github_repo [hello_world, spoon_knife]"
    by (simp add: github_repo_def hello_world_def spoon_knife_def name_char_def url_char_def
        control_char_def)
  have p: "githubRepos ?s = JArray [hello_world, spoon_knife]"
    by simp
  have u: "githubUser ?s \<noteq> None" "githubUser ?s' = None"
    by (simp_all add: initial_state_def)
  note t = C2_tool_call_reply [of ?s ?ai tool_call_response ?calls, OF h1(1) h2(1) h3(1) h4 h5]
  note t' = C2_tool_call_reply [of ?s' ?ai tool_call_response ?calls, OF h1(2) h2(2) h3(2) h4 h5]
  from t u(1) p g obtain reply where
    m: "messages (handleSend ?ai ?s) =
          messages ?s @ [\<lparr>role = User, msg_text = input ?s, mapResults = None\<rparr>, reply]"
    and n: "map bullet_link (bullet_lines (msg_text reply))
              = map (\<lambda>r. Some (repo_name r, repo_url r)) [hello_world, spoon_knife]"
    by blast
  have l: "last (messages (handleSend ?ai ?s)) = reply"
    unfolding m by simp
  have x: "map bullet_link (bullet_lines (msg_text (last (messages (handleSend ?ai ?s)))))
     = [Some (''Hello-World'', ''https://github.com/octocat/Hello-World''),
        Some (''Spoon-Knife'', ''https://github.com/octocat/Spoon-Knife'')]"
    unfolding l n by (simp add: repo_name_def repo_url_def hello_world_def spoon_knife_def)
  from t have y: "effects (handleSend ?ai ?s) = [GenerateContent ''show my repos'' None]"
    by (simp add: initial_state_def)
  from t' u(2) have m': "messages (handleSend ?ai ?s') =
      messages ?s' @ [\<lparr>role = User, msg_text = input ?s', mapResults = None\<rparr>,
                      \<lparr>role = Model, msg_text = link_prompt, mapResults = None\<rparr>]"
    by blast
  have z: "msg_text (last (messages (handleSend ?ai ?s'))) = link_prompt"
    unfolding m' by simp
  from x y z show ?thesis by blast
qed

text \<open>
  The guard of the message handler tests the text of the origin: a message whose origin
  neither ends with \<^verbatim>\<open>.run.app\<close> nor contains \<^verbatim>\<open>localhost\<close> leaves the state as it is and
  starts no fetch, as one from \<^verbatim>\<open>https://evil.example\<close> does.
\<close>

lemma handleMessage_origin_test:
  "(\<not> suffix ''.run.app'' (origin ev) \<and> \<not> sublist ''localhost'' (origin ev)
      \<longrightarrow> handleMessage env ev s = s)
   \<and> handleMessage env \<lparr>origin = ''https://evil.example'', data = d\<rparr> s = s"
proof -
  have e: "\<not> endsWith ''https://evil.example'' ''.run.app''"
    by (simp add: endsWith_def)
  have i: "\<not> includes_str ''https://evil.example'' ''localhost''"
    by simp
  have a: "handleMessage env ev s = s"
    if "\<not> suffix ''.run.app'' (origin ev) \<and> \<not> sublist ''localhost'' (origin ev)"
    using that by (simp add: handleMessage_def endsWith_suffix includes_sublist)
  have c: "handleMessage env \<lparr>origin = ''https://evil.example'', data = d\<rparr> s = s"
    using e i by (simp add: handleMessage_def)
  from a c show ?thesis by blast
qed

text \<open>
  Claim C3 fails on the code. The guard is meant to admit the application's own origin
  and the local development host, and admits more: \<^verbatim>\<open>https://localhost.evil.example\<close>
  contains \<^verbatim>\<open>localhost\<close> and \<^verbatim>\<open>https://evil.run.app\<close> ends with \<^verbatim>\<open>.run.app\<close>. Neither
  is the origin of the deployed application or a local development host, and a message
  from either of them starts the profile and repository fetches and changes the state.
\<close>

theorem C3_foreign_origin_accepted:
  "\<not> claimed_allowed_origin ''https://geoguide.run.app'' ''https://localhost.evil.example''
   \<and> effects (handleMessage linked
        \<lparr>origin = ''https://localhost.evil.example'', data = Some oauth_success\<rparr> initial_state)
      = [Fetch ''/api/github/user'', Fetch ''/api/github/repos'']
   \<and> githubUser (handleMessage linked
        \<lparr>origin = ''https://localhost.evil.example'', data = Some oauth_success\<rparr> initial_state)
      = Some octocat
   \<and> \<not> claimed_allowed_origin ''https://geoguide.run.app'' ''https://evil.run.app''
   \<and> effects (handleMessage linked
        \<lparr>origin = ''https://evil.run.app'', data = Some oauth_success\<rparr> initial_state)
      = [Fetch ''/api/github/user'', Fetch ''/api/github/repos'']
   \<and> githubUser (handleMessage linked
        \<lparr>origin = ''https://evil.run.app'', data = Some oauth_success\<rparr> initial_state)
      = Some octocat"
  by (simp add: claimed_allowed_origin_def origin_host_def handleMessage_def endsWith_def
      fetchGithubUser_def fetchGithubRepos_def linked_def oauth_success_def initial_state_def)

end
